theory Spec2Isabelle
  imports Main "HOL-Library.Word" "HOL-Library.Sublist"
begin

section \<open>JavaScript strings\<close>

text \<open>
  A JavaScript string is a sequence of UTF-16 code units: \<open>length\<close> counts code units and
  \<open>charCodeAt\<close> returns a value below 65536. String literals of the source are written
  with \<open>lit\<close>; the source's literals that matter here are ASCII, except for the musical
  note of the relay client's pop template, which is spelled out as its two code units.
\<close>

type_synonym code_unit = "16 word"
type_synonym jsstring = "code_unit list"

definition lit :: "string \<Rightarrow> jsstring" where
  "lit s = map of_char s"

text \<open>
  The class \<open>\s\<close> of a regular expression and the characters removed by \<open>trim\<close> are the
  same set: WhiteSpace and LineTerminator of the language standard.
\<close>

definition isSpace :: "code_unit \<Rightarrow> bool" where
  "isSpace c \<longleftrightarrow>
     c = 0x09 \<or> c = 0x0A \<or> c = 0x0B \<or> c = 0x0C \<or> c = 0x0D \<or> c = 0x20 \<or> c = 0xA0 \<or>
     c = 0x1680 \<or> (0x2000 \<le> c \<and> c \<le> 0x200A) \<or> c = 0x2028 \<or> c = 0x2029 \<or>
     c = 0x202F \<or> c = 0x205F \<or> c = 0x3000 \<or> c = 0xFEFF"

definition trimStart :: "jsstring \<Rightarrow> jsstring" where
  "trimStart s = dropWhile isSpace s"

definition trimEnd :: "jsstring \<Rightarrow> jsstring" where
  "trimEnd s = rev (dropWhile isSpace (rev s))"

definition trim :: "jsstring \<Rightarrow> jsstring" where
  "trim s = trimEnd (trimStart s)"

text \<open>\<open>s.substring(0, n)\<close> for a non-negative integer \<open>n\<close>.\<close>

definition substring0 :: "jsstring \<Rightarrow> nat \<Rightarrow> jsstring" where
  "substring0 s n = take n s"

text \<open>\<open>parts.join(sep)\<close>.\<close>

fun join :: "jsstring \<Rightarrow> jsstring list \<Rightarrow> jsstring" where
  "join sep [] = []"
| "join sep [x] = x"
| "join sep (x # y # ys) = x @ sep @ join sep (y # ys)"

text \<open>
  \<open>s.split(re)\<close> for a regular expression \<open>re\<close> that matches the non-empty runs of one
  character class, such as \<open>/\s+/\<close> and \<open>/[.!?]+/\<close>: \<open>splitRuns sepc cur s\<close> scans \<open>s\<close> with
  the piece read so far in \<open>cur\<close>. A separator run closes the current piece, also an empty
  one at the start of the string, and the piece after the last run is always produced, so
  that the empty string splits into one empty piece.
\<close>

function splitRuns :: "(code_unit \<Rightarrow> bool) \<Rightarrow> jsstring \<Rightarrow> jsstring \<Rightarrow> jsstring list" where
  "splitRuns sepc cur [] = [cur]"
| "splitRuns sepc cur (c # cs) =
     (if sepc c then cur # splitRuns sepc [] (dropWhile sepc cs)
      else splitRuns sepc (cur @ [c]) cs)"
  by pat_completeness auto
termination
  by (relation "measure (\<lambda>(sepc, cur, s). length s)")
    (auto simp: length_dropWhile_le less_Suc_eq_le)

definition splitOn :: "(code_unit \<Rightarrow> bool) \<Rightarrow> jsstring \<Rightarrow> jsstring list" where
  "splitOn sepc s = splitRuns sepc [] s"

text \<open>\<open>s.replace(/\s+/g, " ")\<close>: every maximal run of white space becomes one space.\<close>

function collapseSpace :: "jsstring \<Rightarrow> jsstring" where
  "collapseSpace [] = []"
| "collapseSpace (c # cs) =
     (if isSpace c then 0x20 # collapseSpace (dropWhile isSpace cs)
      else c # collapseSpace cs)"
  by pat_completeness auto
termination
  by (relation "measure length") (auto simp: length_dropWhile_le less_Suc_eq_le)

text \<open>
  Numbers are printed in decimal by \<open>toString\<close> and by template literals; the numbers
  printed here are integers.
\<close>

function digitsOf :: "int \<Rightarrow> jsstring" where
  "digitsOf n =
     (if n < 10 then [of_int (48 + n)] else digitsOf (n div 10) @ [of_int (48 + n mod 10)])"
  by pat_completeness auto
termination
  by (relation "measure nat") auto

definition intToString :: "int \<Rightarrow> jsstring" where
  "intToString i = (if i < 0 then lit ''-'' @ digitsOf (- i) else digitsOf i)"

section \<open>Audio generator: cache key (audiogenerator.js)\<close>

text \<open>
  \<open>ToInt32\<close> of an integer-valued number: the value modulo \<open>2^32\<close>, read as two's
  complement. The numbers of \<open>hashString\<close> are integers far below \<open>2^53\<close>, so the
  floating-point arithmetic of the language is exact on them and \<open>int\<close> models it.
\<close>

definition toInt32 :: "int \<Rightarrow> int" where
  "toInt32 x = (x + 2 ^ 31) mod 2 ^ 32 - 2 ^ 31"

text \<open>\<open>x << n\<close>: the left operand is converted with \<open>ToInt32\<close>, and so is the shifted value.\<close>

definition shiftLeft32 :: "int \<Rightarrow> nat \<Rightarrow> int" where
  "shiftLeft32 x n = toInt32 (toInt32 x * 2 ^ (n mod 32))"

text \<open>\<open>x & y\<close> with both operands the same number \<open>x\<close> is \<open>ToInt32 x\<close>.\<close>

definition andSelf32 :: "int \<Rightarrow> int" where
  "andSelf32 x = toInt32 x"

text \<open>One round of the loop of \<open>hashString\<close>, on the character code \<open>char\<close>.\<close>

definition hashStep :: "int \<Rightarrow> code_unit \<Rightarrow> int" where
  "hashStep hash c =
     (let char = uint c;
          hash1 = shiftLeft32 hash 5 - hash + char
      in andSelf32 hash1)"

definition hashLoop :: "jsstring \<Rightarrow> int" where
  "hashLoop str = foldl hashStep 0 str"

definition hashString :: "jsstring \<Rightarrow> jsstring" where
  "hashString str = intToString (hashLoop str)"

text \<open>
  \<open>options.gender || "default"\<close>: an absent gender and the empty string are both falsy.
\<close>

definition genderOrDefault :: "jsstring option \<Rightarrow> jsstring" where
  "genderOrDefault g = (case g of None \<Rightarrow> lit ''default'' | Some s \<Rightarrow> if s = [] then lit ''default'' else s)"

definition createCacheKey :: "jsstring \<Rightarrow> jsstring \<Rightarrow> jsstring option \<Rightarrow> jsstring" where
  "createCacheKey text style gender =
     style @ lit ''-'' @ genderOrDefault gender @ lit ''-'' @ hashString text"


section \<open>Audio generator: cache and backends (audiogenerator.js)\<close>

text \<open>An exception of the language, with its message.\<close>

datatype js_error = Error jsstring | TypeError jsstring | SyntaxError jsstring

fun message :: "js_error \<Rightarrow> jsstring" where
  "message (Error m) = m"
| "message (TypeError m) = m"
| "message (SyntaxError m) = m"

datatype service = Browser | ElevenLabs | Google | Azure

text \<open>
  The playable part of an \<open>AudioResult\<close>: the URL of a recorded blob, or the utterance
  itself for direct playback. The \<open>duration\<close> field is a floating-point estimate and is
  left out of the record.
\<close>

datatype playable = AudioUrl nat | Utterance jsstring

record audio_result =
  success :: bool
  service :: service
  playable :: playable
  voice :: jsstring
  playDirectly :: bool

text \<open>
  What the platform and the network answer. A backend call is numbered by the count of
  backend calls made before it, so that an answer may change from one call to the next.
  \<open>prepareVoice\<close> is the name of the voice that \<open>selectVoice\<close> picks for a style and a
  gender, \<open>None\<close> when it picks none, or the exception thrown while the utterance is built
  and the voice selected.
  \<open>remote\<close> is the outcome of \<open>generateWithElevenLabs\<close>, \<open>generateWithGoogle\<close> or
  \<open>generateWithAzure\<close>: each of them throws on a missing key, a rejected request or a
  response that is not ok, and returns an \<open>AudioResult\<close> otherwise.
\<close>

record audio_world =
  speechSynthesis :: bool
  prepareVoice :: "jsstring \<Rightarrow> jsstring option \<Rightarrow> js_error + jsstring option"
  recordSpeech :: "nat \<Rightarrow> jsstring \<Rightarrow> js_error + nat"
  remote :: "nat \<Rightarrow> service \<Rightarrow> jsstring \<Rightarrow> jsstring \<Rightarrow> jsstring option \<Rightarrow> js_error + audio_result"

type_synonym backend_call = "service \<times> jsstring \<times> jsstring \<times> jsstring option"

text \<open>
  The generator object: its configured service and its cache, a \<open>Map\<close>, which keeps its
  keys in insertion order. \<open>calls\<close> records the backend calls made so far; it is not a
  field of the class.
\<close>

record generator =
  currentService :: service
  audioCache :: "(jsstring \<times> audio_result) list"
  calls :: "backend_call list"

definition maxCacheSize :: nat where
  "maxCacheSize = 50"

definition newGenerator :: generator where
  "newGenerator = \<lparr>currentService = Browser, audioCache = [], calls = []\<rparr>"

text \<open>The operations of \<open>Map\<close> that the cache uses.\<close>

definition mapHas :: "'k \<Rightarrow> ('k \<times> 'v) list \<Rightarrow> bool" where
  "mapHas k c = (k \<in> set (map fst c))"

definition mapGet :: "'k \<Rightarrow> ('k \<times> 'v) list \<Rightarrow> 'v option" where
  "mapGet k c = map_of c k"

definition mapSet :: "'k \<Rightarrow> 'v \<Rightarrow> ('k \<times> 'v) list \<Rightarrow> ('k \<times> 'v) list" where
  "mapSet k v c =
     (if mapHas k c then map (\<lambda>(k', v'). if k' = k then (k', v) else (k', v')) c
      else c @ [(k, v)])"

definition mapDelete :: "'k \<Rightarrow> ('k \<times> 'v) list \<Rightarrow> ('k \<times> 'v) list" where
  "mapDelete k c = filter (\<lambda>(k', v'). k' \<noteq> k) c"

definition firstKey :: "('k \<times> 'v) list \<Rightarrow> 'k option" where
  "firstKey c = (case c of [] \<Rightarrow> None | (k, v) # rest \<Rightarrow> Some k)"

definition cacheAudio :: "'k \<Rightarrow> 'v \<Rightarrow> ('k \<times> 'v) list \<Rightarrow> ('k \<times> 'v) list" where
  "cacheAudio key audioResult c =
     (let c1 = (if length c \<ge> maxCacheSize
                then (case firstKey c of None \<Rightarrow> c | Some k \<Rightarrow> mapDelete k c)
                else c)
      in mapSet key audioResult c1)"

text \<open>
  \<open>generateWithBrowser\<close> rejects when the platform has no speech synthesis, and when the
  promise executor throws; otherwise it resolves, with the recorded blob or, when recording
  fails, with the utterance for direct playback.
\<close>

definition generateWithBrowser ::
  "audio_world \<Rightarrow> jsstring \<Rightarrow> jsstring \<Rightarrow> jsstring option \<Rightarrow> generator
     \<Rightarrow> (js_error + audio_result) \<times> generator" where
  "generateWithBrowser w text style gender g =
     (let n = length (calls g);
          g' = g\<lparr>calls := calls g @ [(Browser, text, style, gender)]\<rparr>
      in if \<not> speechSynthesis w then (Inl (Error (lit ''Speech synthesis not supported'')), g')
         else
           (case prepareVoice w style gender of
              Inl thrown \<Rightarrow> (Inl thrown, g')
            | Inr selectedVoice \<Rightarrow>
                (let v = (case selectedVoice of
                            None \<Rightarrow> lit ''default''
                          | Some name \<Rightarrow> if name = [] then lit ''default'' else name)
                 in case recordSpeech w n text of
                      Inr blob \<Rightarrow>
                        (Inr \<lparr>success = True, service = Browser, playable = AudioUrl blob,
                              voice = v, playDirectly = False\<rparr>, g')
                    | Inl e \<Rightarrow>
                        (Inr \<lparr>success = True, service = Browser, playable = Utterance text,
                              voice = v, playDirectly = True\<rparr>, g'))))"

definition generateWithRemote ::
  "audio_world \<Rightarrow> service \<Rightarrow> jsstring \<Rightarrow> jsstring \<Rightarrow> jsstring option \<Rightarrow> generator
     \<Rightarrow> (js_error + audio_result) \<times> generator" where
  "generateWithRemote w svc text style gender g =
     (remote w (length (calls g)) svc text style gender,
      g\<lparr>calls := calls g @ [(svc, text, style, gender)]\<rparr>)"

text \<open>The \<open>switch\<close> of \<open>generateAudio\<close> on the configured service.\<close>

definition dispatch ::
  "audio_world \<Rightarrow> jsstring \<Rightarrow> jsstring \<Rightarrow> jsstring option \<Rightarrow> generator
     \<Rightarrow> (js_error + audio_result) \<times> generator" where
  "dispatch w text style gender g =
     (case currentService g of
        ElevenLabs \<Rightarrow> generateWithRemote w ElevenLabs text style gender g
      | Google \<Rightarrow> generateWithRemote w Google text style gender g
      | Azure \<Rightarrow> generateWithRemote w Azure text style gender g
      | Browser \<Rightarrow> generateWithBrowser w text style gender g)"

text \<open>
  \<open>generateAudio\<close>: \<open>Inl\<close> is a rejected promise. The test \<open>has\<close> and the read \<open>get\<close> of
  the cache are one lookup. A result of the configured backend is cached and returned; an
  exception of it is caught and answered by \<open>generateWithBrowser\<close>, whose result is returned
  as it is, without caching.
\<close>

definition generateAudio ::
  "audio_world \<Rightarrow> jsstring \<Rightarrow> jsstring \<Rightarrow> jsstring option \<Rightarrow> generator
     \<Rightarrow> (js_error + audio_result) \<times> generator" where
  "generateAudio w text style gender g =
     (let cacheKey = createCacheKey text style gender
      in case mapGet cacheKey (audioCache g) of
           Some cached \<Rightarrow> (Inr cached, g)
         | None \<Rightarrow>
             (case dispatch w text style gender g of
                (Inr audioResult, g1) \<Rightarrow>
                  (Inr audioResult,
                   g1\<lparr>audioCache := cacheAudio cacheKey audioResult (audioCache g1)\<rparr>)
              | (Inl error, g1) \<Rightarrow> generateWithBrowser w text style gender g1))"



text \<open>
  Two platforms for concrete runs: on both every remote provider throws for want of a key
  and recording fails; \<open>silentWorld\<close> has no speech synthesis, \<open>speakingWorld\<close> has it.
\<close>

definition silentWorld :: audio_world where
  "silentWorld =
     \<lparr>speechSynthesis = False,
      prepareVoice = (\<lambda>style gender. Inr None),
      recordSpeech = (\<lambda>n text. Inl (Error (lit ''recording failed''))),
      remote = (\<lambda>n svc text style gender. Inl (Error (lit ''API key not configured'')))\<rparr>"

definition speakingWorld :: audio_world where
  "speakingWorld = silentWorld\<lparr>speechSynthesis := True\<rparr>"


section \<open>Orchestrator: history (popup.js)\<close>

text \<open>
  The content record that the extractor produces and the popup keeps as \<open>currentContent\<close>.
\<close>

record extracted_content =
  ecContent :: jsstring
  ecTitle :: jsstring
  ecUrl :: jsstring
  ecWordCount :: nat
  extractedAt :: jsstring



text \<open>\<open>s || d\<close> on strings: the empty string is falsy.\<close>

definition orElse :: "jsstring \<Rightarrow> jsstring \<Rightarrow> jsstring" where
  "orElse s d = (if s = [] then d else s)"







section \<open>Rhyme generator (gemini.js)\<close>

subsection \<open>Prompt construction\<close>

record length_spec =
  lines :: jsstring
  verses :: jsstring
  duration :: jsstring

record style_guide =
  rhythm :: jsstring
  rhymeScheme :: jsstring
  language :: jsstring
  structureS :: jsstring
  examples :: jsstring

definition lengthSpecs :: "(jsstring \<times> length_spec) list" where
  "lengthSpecs =
     [(lit ''short'', \<lparr>lines = lit ''4-6 lines'', verses = lit ''1 verse'', duration = lit ''brief''\<rparr>),
      (lit ''medium'', \<lparr>lines = lit ''8-12 lines'', verses = lit ''2-3 verses'', duration = lit ''moderate''\<rparr>),
      (lit ''long'', \<lparr>lines = lit ''16-24 lines'', verses = lit ''3-4 verses'', duration = lit ''extended''\<rparr>)]"

definition styleGuides :: "(jsstring \<times> style_guide) list" where
  "styleGuides =
     [(lit ''rap'',
       \<lparr>rhythm = lit ''strong 4/4 beat with emphasis on beats 1 and 3'',
        rhymeScheme = lit ''AABB or ABAB with internal rhymes'',
        language = lit ''modern, rhythmic, with wordplay and flow'',
        structureS = lit ''verses with punch lines'',
        examples = lit ''like Drake, Kendrick, or Eminem''\<rparr>),
      (lit ''pop'',
       \<lparr>rhythm = lit ''catchy, upbeat tempo'',
        rhymeScheme = lit ''ABAB or AABA with memorable hooks'',
        language = lit ''accessible, melodic, radio-friendly'',
        structureS = lit ''verse-chorus structure with hooks'',
        examples = lit ''like Taylor Swift, Ed Sheeran, or Dua Lipa''\<rparr>),
      (lit ''nursery'',
       \<lparr>rhythm = lit ''simple, bouncy rhythm'',
        rhymeScheme = lit ''AABB perfect rhymes'',
        language = lit ''simple words, playful, innocent'',
        structureS = lit ''repetitive patterns, easy to remember'',
        examples = lit ''like Twinkle Twinkle Little Star or Humpty Dumpty''\<rparr>),
      (lit ''ballad'',
       \<lparr>rhythm = lit ''slow, emotional tempo'',
        rhymeScheme = lit ''ABAB or ABCB with flowing verses'',
        language = lit ''emotional, storytelling, descriptive'',
        structureS = lit ''narrative verses building emotion'',
        examples = lit ''like Adele, Sam Smith, or classic folk ballads''\<rparr>),
      (lit ''country'',
       \<lparr>rhythm = lit ''steady, storytelling rhythm'',
        rhymeScheme = lit ''AABA or ABAB with narrative flow'',
        language = lit ''folksy, down-to-earth, relatable'',
        structureS = lit ''story-driven verses with choruses'',
        examples = lit ''like Johnny Cash, Dolly Parton, or Keith Urban''\<rparr>)]"

definition toneAdjectives :: "(jsstring \<times> jsstring) list" where
  "toneAdjectives =
     [(lit ''fun'', lit ''playful, energetic, and entertaining''),
      (lit ''educational'', lit ''informative, clear, and engaging''),
      (lit ''humorous'', lit ''funny, witty, and clever''),
      (lit ''dramatic'', lit ''intense, emotional, and powerful''),
      (lit ''chill'', lit ''relaxed, smooth, and laid-back'')]"

text \<open>
  \<open>createPrompt\<close>. The three tables are read with the given keys; a key outside a table
  reads \<open>undefined\<close>. For the tone that prints as \<open>undefined\<close>; for the style and the
  length the property read \<open>guide.examples\<close> or \<open>spec.lines\<close> throws a \<open>TypeError\<close>, the style
  first, as the template reads it first. The template literal is the concatenation of its
  pieces. Keys that an object inherits from its prototype, such as \<open>constructor\<close>, are not
  among the values of the three options and are not modelled.
\<close>

definition createPrompt ::
  "jsstring \<Rightarrow> jsstring \<Rightarrow> jsstring \<Rightarrow> jsstring \<Rightarrow> jsstring \<Rightarrow> jsstring \<Rightarrow> js_error + jsstring" where
  "createPrompt content style len tone ttl customInstructions =
     (let toneDesc = (case map_of toneAdjectives tone of None \<Rightarrow> lit ''undefined'' | Some d \<Rightarrow> d)
      in case map_of styleGuides style of
           None \<Rightarrow> Inl (TypeError (lit ''Cannot read properties of undefined (reading 'examples')''))
         | Some guide \<Rightarrow>
             (case map_of lengthSpecs len of
                None \<Rightarrow> Inl (TypeError (lit ''Cannot read properties of undefined (reading 'lines')''))
              | Some spec \<Rightarrow>
                  Inr (concat
                    [lit ''Transform the following content into a '', toneDesc, lit '' '', style,
                     lit '' song/rhyme.\<newline>\<newline>CONTENT TO TRANSFORM:\<newline>Title: '', ttl,
                     lit ''\<newline>Content: '', substring0 content 2500,
                     lit ''\<newline>\<newline>STYLE REQUIREMENTS:\<newline>- Genre: '', style, lit '' '', examples guide,
                     lit ''\<newline>- Rhythm: '', rhythm guide,
                     lit ''\<newline>- Rhyme scheme: '', rhymeScheme guide,
                     lit ''\<newline>- Language style: '', language guide,
                     lit ''\<newline>- Structure: '', structureS guide,
                     lit ''\<newline>- Length: '', lines spec, lit '' ('', verses spec,
                     lit '')\<newline>- Tone: '', toneDesc,
                     lit ''\<newline>\<newline>CREATIVE GUIDELINES:\<newline>1. Capture the main ideas and key information from the content\<newline>2. Make it memorable and catchy with strong rhythm\<newline>3. Use creative wordplay and metaphors appropriate to the style\<newline>4. Ensure smooth flow and natural pronunciation\<newline>5. Include hooks or memorable phrases that stick\<newline>6. Make it '',
                     toneDesc, lit '' while staying true to the content\<newline>'',
                     (if customInstructions = [] then []
                      else lit ''7. Additional instructions: '' @ customInstructions),
                     lit ''\<newline>\<newline>IMPORTANT: Return ONLY the song/rhyme lyrics with clear verse breaks. No explanations, titles, or additional text.''])))"

subsection \<open>The retry loop\<close>

definition maxRetries :: nat where
  "maxRetries = 3"

definition retryDelay :: nat where
  "retryDelay = 1000"

text \<open>
  What one request to the endpoint comes to, by the branches of the \<open>try\<close> block of
  \<open>callGeminiAPI\<close>: \<open>fetch\<close> rejects; the response is not ok, with its status and the
  message of its error body, if any; the body is not JSON; the result has no
  \<open>candidates[0].content\<close>; reading the result throws a \<open>TypeError\<close> (a result that is
  \<open>null\<close>, a content without \<open>parts[0]\<close>); or the text is read, which may be \<open>undefined\<close>.
\<close>

datatype gemini_reply =
    FetchRejected jsstring
  | NotOk nat "jsstring option"
  | BodyNotJson jsstring
  | NoCandidate
  | ResultUnreadable jsstring
  | ResponseText "jsstring option"

definition tryRequest :: "gemini_reply \<Rightarrow> js_error + jsstring option" where
  "tryRequest reply =
     (case reply of
        FetchRejected m \<Rightarrow> Inl (TypeError m)
      | NotOk status msg \<Rightarrow>
          Inl (Error (lit ''API request failed: '' @ intToString (int status) @ lit '' - ''
                 @ (case msg of None \<Rightarrow> lit ''Unknown error''
                    | Some m \<Rightarrow> orElse m (lit ''Unknown error''))))
      | BodyNotJson m \<Rightarrow> Inl (SyntaxError m)
      | NoCandidate \<Rightarrow> Inl (Error (lit ''Invalid response format from Gemini API''))
      | ResultUnreadable m \<Rightarrow> Inl (TypeError m)
      | ResponseText t \<Rightarrow> Inr t)"

text \<open>
  What the loop does, in order: the requests, each with its attempt number, and the
  delays in milliseconds.
\<close>

datatype event = Fetch nat | Delay nat

text \<open>
  \<open>callGeminiAPI\<close>. Within one call the prompt and the key are fixed, so the backend is
  given by its reply to the request of each attempt.
\<close>

function callGeminiAPI :: "(nat \<Rightarrow> gemini_reply) \<Rightarrow> nat \<Rightarrow> (js_error + jsstring option) \<times> event list" where
  "callGeminiAPI backend attempt =
     (case tryRequest (backend attempt) of
        Inr text \<Rightarrow> (Inr text, [Fetch attempt])
      | Inl error \<Rightarrow>
          (if attempt < maxRetries
           then (case callGeminiAPI backend (attempt + 1) of
                   (res, evs) \<Rightarrow> (res, Fetch attempt # Delay (retryDelay * attempt) # evs))
           else (Inl error, [Fetch attempt])))"
  by pat_completeness auto
termination
  by (relation "measure (\<lambda>(backend, attempt). maxRetries - attempt)") auto

declare callGeminiAPI.simps [simp del]

subsection \<open>Cleaning the response and counting words\<close>

definition isLineTerminator :: "code_unit \<Rightarrow> bool" where
  "isLineTerminator c \<longleftrightarrow> c = 0x0A \<or> c = 0x0D \<or> c = 0x2028 \<or> c = 0x2029"

text \<open>
  Matching with the flag \<open>i\<close> (and without \<open>u\<close>) compares the upper-case forms of two code
  units, and a code unit outside ASCII never equals an ASCII one this way; against an
  ASCII pattern this is equality after folding the ASCII letters.
\<close>

definition lowerAscii :: "code_unit \<Rightarrow> code_unit" where
  "lowerAscii c = (if 0x41 \<le> c \<and> c \<le> 0x5A then c + 0x20 else c)"

definition startsWithCI :: "jsstring \<Rightarrow> jsstring \<Rightarrow> bool" where
  "startsWithCI pat s \<longleftrightarrow>
     length pat \<le> length s \<and> map lowerAscii (take (length pat) s) = map lowerAscii pat"

text \<open>
  \<open>s.replace(/^(Here's|Here is).*?:\s*/i, "")\<close>: after one of the two openings, the lazy
  \<open>.*?\<close> runs to the first colon, which must come before any line terminator; the colon
  and the white space after it go as well. Without a match the string is unchanged.
\<close>

definition stripHerePreamble :: "jsstring \<Rightarrow> jsstring" where
  "stripHerePreamble s =
     (let opening = (if startsWithCI (lit ''Here's'') s then Some (6::nat)
                     else if startsWithCI (lit ''Here is'') s then Some 7 else None)
      in case opening of
           None \<Rightarrow> s
         | Some k \<Rightarrow>
             (case dropWhile (\<lambda>c. c \<noteq> 0x3A \<and> \<not> isLineTerminator c) (drop k s) of
                [] \<Rightarrow> s
              | c # rest \<Rightarrow> if c = 0x3A then dropWhile isSpace rest else s))"

text \<open>\<open>s.replace(/^(Song|Rhyme|Lyrics):\s*/i, "")\<close>.\<close>

definition stripLabel :: "jsstring \<Rightarrow> jsstring" where
  "stripLabel s =
     (if startsWithCI (lit ''Song:'') s then dropWhile isSpace (drop 5 s)
      else if startsWithCI (lit ''Rhyme:'') s then dropWhile isSpace (drop 6 s)
      else if startsWithCI (lit ''Lyrics:'') s then dropWhile isSpace (drop 7 s)
      else s)"

text \<open>
  The inner part of \<open>/\*\*(.*?)\*\*/\<close> and \<open>/\*(.*?)\*/\<close> after the opening marker:
  \<open>findClose mark s\<close> is the shortest run of characters other than line terminators that
  is followed by the marker, with what comes after the marker.
\<close>

fun findClose :: "jsstring \<Rightarrow> jsstring \<Rightarrow> (jsstring \<times> jsstring) option" where
  "findClose mark [] = (if mark = [] then Some ([], []) else None)"
| "findClose mark (c # cs) =
     (if take (length mark) (c # cs) = mark then Some ([], drop (length mark) (c # cs))
      else if isLineTerminator c then None
      else (case findClose mark cs of
              None \<Rightarrow> None
            | Some (inner, rest) \<Rightarrow> Some (c # inner, rest)))"

text \<open>
  \<open>s.replace(re, "$1")\<close> for the global expressions \<open>/\*\*(.*?)\*\*/g\<close> and
  \<open>/\*(.*?)\*/g\<close>, whose marker is \<open>**\<close> or \<open>*\<close>: the matches are found from left to
  right, each after the end of the one before, and each is replaced by its inner part.
\<close>

function unmark :: "jsstring \<Rightarrow> jsstring \<Rightarrow> jsstring" where
  "unmark mark [] = []"
| "unmark mark (c # cs) =
     (if mark \<noteq> [] \<and> take (length mark) (c # cs) = mark
      then (case findClose mark (drop (length mark) (c # cs)) of
              Some (inner, rest) \<Rightarrow> inner @ unmark mark rest
            | None \<Rightarrow> c # unmark mark cs)
      else c # unmark mark cs)"
  by pat_completeness auto
termination
proof (relation "measure (\<lambda>(mark, s). length s)", goal_cases)
  case 1
  then show ?case by simp
next
  case 2
  then show ?case by simp
next
  case (3 mark c cs x2 inner rest)
  have shorter: "findClose mark s = Some (i, r) \<Longrightarrow> length r \<le> length s" for s i r
  proof (induction s arbitrary: i r)
    case Nil
    then show ?case by (simp split: if_splits)
  next
    case (Cons d ds)
    then show ?case
      by (auto split: if_splits option.splits simp: le_Suc_eq)
  qed
  from 3 have "length rest \<le> length (drop (length mark) (c # cs))"
    using shorter [of "drop (length mark) (c # cs)" inner rest] by simp
  moreover from 3 have "0 < length mark" by simp
  ultimately have "length rest < length (c # cs)" by (cases mark) auto
  then show ?case by simp
next
  case 4
  then show ?case by simp
qed

text \<open>
  \<open>s.replace(/\n\s*\n/g, "\n\n")\<close>: at a line feed, the greedy \<open>\s*\<close> takes the whole run
  of white space that follows and gives back as far as the last line feed in it; when the
  run has no line feed there is no match at this place.
\<close>

definition throughLastLineFeed :: "jsstring \<Rightarrow> nat" where
  "throughLastLineFeed w = length w - length (takeWhile (\<lambda>c. c \<noteq> 0x0A) (rev w))"

function collapseBlankLines :: "jsstring \<Rightarrow> jsstring" where
  "collapseBlankLines [] = []"
| "collapseBlankLines (c # cs) =
     (if c = 0x0A \<and> 0x0A \<in> set (takeWhile isSpace cs)
      then 0x0A # 0x0A # collapseBlankLines (drop (throughLastLineFeed (takeWhile isSpace cs)) cs)
      else c # collapseBlankLines cs)"
  by pat_completeness auto
termination
  by (relation "measure length") auto

text \<open>\<open>cleanResponse\<close>; the response may be \<open>undefined\<close>, which is falsy like the empty string.\<close>

definition cleanResponse :: "jsstring option \<Rightarrow> jsstring" where
  "cleanResponse response =
     (case response of
        None \<Rightarrow> []
      | Some r \<Rightarrow>
          if r = [] then []
          else (let cleaned = trim (unmark (lit ''*'') (unmark (lit ''**'') (stripLabel (stripHerePreamble r))))
                in collapseBlankLines cleaned))"

definition countWords :: "jsstring option \<Rightarrow> nat" where
  "countWords text =
     (case text of
        None \<Rightarrow> 0
      | Some t \<Rightarrow> if t = [] then 0 else length (filter (\<lambda>word. length word > 0) (splitOn isSpace t)))"

subsection \<open>The fallback rhyme\<close>

definition isSentenceEnd :: "code_unit \<Rightarrow> bool" where
  "isSentenceEnd c \<longleftrightarrow> c = 0x2E \<or> c = 0x21 \<or> c = 0x3F"

definition extractKeyPoints :: "jsstring \<Rightarrow> nat \<Rightarrow> jsstring list" where
  "extractKeyPoints content maxPoints =
     (let sentences = filter (\<lambda>s. length (trim s) > 10) (splitOn isSentenceEnd content)
      in map trim (take maxPoints sentences))"

definition templates :: "jsstring \<Rightarrow> (jsstring \<times> jsstring) list" where
  "templates content =
     [(lit ''rap'',
       lit ''Yo, check this out, let me break it down,\<newline>''
         @ join (lit '',\<newline>'') (extractKeyPoints content 2)
         @ lit ''\<newline>That's the story, that's the sound!''),
      (lit ''pop'',
       lit ''Here's a story that you need to know,\<newline>''
         @ join (lit '',\<newline>'') (extractKeyPoints content 2)
         @ lit ''\<newline>Now you've heard it, now you know!''),
      (lit ''nursery'',
       lit ''Listen close to what I say,\<newline>''
         @ join (lit '',\<newline>'') (extractKeyPoints content 2)
         @ lit ''\<newline>That's the story for today!''),
      (lit ''ballad'',
       lit ''Let me tell you of a tale,\<newline>''
         @ join (lit '',\<newline>'') (extractKeyPoints content 2)
         @ lit ''\<newline>This story will never fail.''),
      (lit ''country'',
       lit ''Gather 'round, I'll tell you true,\<newline>''
         @ join (lit '',\<newline>'') (extractKeyPoints content 2)
         @ lit ''\<newline>That's the story, through and through.'')]"

text \<open>\<open>templates[style] || templates.pop\<close>; no template is the empty string.\<close>

definition generateFallbackRhyme :: "jsstring \<Rightarrow> jsstring \<Rightarrow> jsstring" where
  "generateFallbackRhyme content style =
     (case map_of (templates content) style of
        Some t \<Rightarrow> t
      | None \<Rightarrow> (case map_of (templates content) (lit ''pop'') of Some t \<Rightarrow> t | None \<Rightarrow> []))"

subsection \<open>The transformation\<close>

record rhyme_metadata =
  mdStyle :: jsstring
  mdLength :: jsstring
  mdTone :: jsstring
  mdWordCount :: nat
  generatedAt :: jsstring

text \<open>The two objects that \<open>transformToRhyme\<close> returns, with \<open>success\<close> true and false.\<close>

datatype rhyme_result =
    Success jsstring rhyme_metadata
  | Failure jsstring jsstring


text \<open>The options of a call; an absent option takes its default.\<close>

record generation_options =
  optStyle :: "jsstring option"
  optLength :: "jsstring option"
  optTone :: "jsstring option"
  optTitle :: "jsstring option"
  optCustomInstructions :: "jsstring option"

definition orDefault :: "jsstring option \<Rightarrow> jsstring \<Rightarrow> jsstring" where
  "orDefault v d = (case v of None \<Rightarrow> d | Some s \<Rightarrow> s)"

text \<open>
  \<open>transformToRhyme\<close>, with the stored key (\<open>None\<close> when there is none; the empty string
  is falsy as well), the time stamp and the backend. Every exception of the \<open>try\<close> block
  ends in the failure object with the fallback rhyme.
\<close>

definition transformToRhyme ::
  "(nat \<Rightarrow> gemini_reply) \<Rightarrow> jsstring option \<Rightarrow> jsstring
     \<Rightarrow> jsstring \<Rightarrow> generation_options \<Rightarrow> rhyme_result \<times> event list" where
  "transformToRhyme backend storedKey now content options =
     (let style = orDefault (optStyle options) (lit ''pop'');
          len = orDefault (optLength options) (lit ''medium'');
          tone = orDefault (optTone options) (lit ''fun'');
          ttl = orDefault (optTitle options) [];
          customInstructions = orDefault (optCustomInstructions options) [];
          failure = (\<lambda>error. Failure (message error) (generateFallbackRhyme content style))
      in case storedKey of
           None \<Rightarrow> (failure (Error (lit ''Gemini API key not configured'')), [])
         | Some apiKey \<Rightarrow>
             if apiKey = [] then (failure (Error (lit ''Gemini API key not configured'')), [])
             else
               (case createPrompt content style len tone ttl customInstructions of
                  Inl error \<Rightarrow> (failure error, [])
                | Inr prompt \<Rightarrow>
                    (case callGeminiAPI backend 1 of
                       (Inl error, evs) \<Rightarrow> (failure error, evs)
                     | (Inr response, evs) \<Rightarrow>
                         (Success (cleanResponse response)
                            \<lparr>mdStyle = style, mdLength = len, mdTone = tone,
                             mdWordCount = countWords response, generatedAt = now\<rparr>,
                          evs))))"




definition preambleBackend :: "nat \<Rightarrow> gemini_reply" where
  "preambleBackend attempt = ResponseText (Some (lit ''Here's your song: la la''))"

definition defaultOptions :: generation_options where
  "defaultOptions =
     \<lparr>optStyle = None, optLength = None, optTone = None, optTitle = None,
      optCustomInstructions = None\<rparr>"

definition foxContent :: jsstring where
  "foxContent = lit ''The quick brown fox jumps over the lazy dog. It was a sunny day.''"

section \<open>Relay client (background script)\<close>

text \<open>
  The data of a \<open>generateRhyme\<close> message. A field that is absent (\<open>undefined\<close> or \<open>null\<close>) is
  \<open>None\<close>.
\<close>

record rhyme_request =
  reqContent :: "jsstring option"
  reqStyle :: "jsstring option"
  reqLength :: "jsstring option"
  reqTone :: "jsstring option"
  reqTitle :: "jsstring option"
  reqCustomInstructions :: "jsstring option"

text \<open>
  What the request to the proxy comes to: \<open>fetch\<close> rejects; the response is not ok, with
  its status and the \<open>error\<close> of its body, if it has one; the body of an ok response is not
  JSON; or the result is read, with its \<open>success\<close>, \<open>rhyme\<close> and \<open>error\<close>.
\<close>

datatype proxy_reply =
    ProxyUnreachable jsstring
  | ProxyNotOk nat "jsstring option"
  | ProxyBodyNotJson jsstring
  | ProxyResult bool "jsstring option" "jsstring option"

record relay_metadata =
  rmStyle :: "jsstring option"
  rmLength :: "jsstring option"
  rmTone :: "jsstring option"
  rmWordCount :: nat
  rmGeneratedAt :: jsstring
  rmFallback :: bool

record relay_result =
  rrRhyme :: "jsstring option"
  rrMetadata :: relay_metadata
  rrAudioUrl :: "jsstring option"

text \<open>\<open>s || d\<close> for a string that may be absent.\<close>

definition optOrElse :: "jsstring option \<Rightarrow> jsstring \<Rightarrow> jsstring" where
  "optOrElse v d = (case v of None \<Rightarrow> d | Some s \<Rightarrow> orElse s d)"

text \<open>
  The fallback rhyme of the relay client. The call \<open>content.split\<close> throws a \<open>TypeError\<close> when
  the content is absent. The musical note of the pop template is the code units
  \<open>D83C DFB5\<close>. A style outside the keys, or an absent one, takes the entry \<open>default\<close>.
\<close>

definition musicalNote :: jsstring where
  "musicalNote = [0xD83C, 0xDFB5]"

definition fallbacks :: "jsstring list \<Rightarrow> (jsstring \<times> jsstring) list" where
  "fallbacks keyPoints =
     [(lit ''rap'',
       lit ''Yo, here's the story, let me break it down,\<newline>'' @ join (lit '',\<newline>'') keyPoints
         @ lit ''\<newline>That's the info, straight from the ground!''),
      (lit ''pop'',
       musicalNote @ lit '' Here's what happened, in a catchy way,\<newline>'' @ join (lit '',\<newline>'') keyPoints
         @ lit ''\<newline>That's the story of today! '' @ musicalNote),
      (lit ''nursery'',
       lit ''Once upon a time, here's what we learned,\<newline>'' @ join (lit '',\<newline>'') keyPoints
         @ lit ''\<newline>And that's how the story turned!''),
      (lit ''default'',
       lit ''Here's the story in a fun way:\<newline>'' @ join (lit '',\<newline>'') keyPoints
         @ lit ''\<newline>That's what happened today!'')]"

text \<open>\<open>fallbacks[style] || fallbacks.default\<close>; no entry is the empty string.\<close>

definition generateFallbackRhyme_bg :: "jsstring option \<Rightarrow> jsstring option \<Rightarrow> js_error + jsstring" where
  "generateFallbackRhyme_bg content style =
     (case content of
        None \<Rightarrow> Inl (TypeError (lit ''Cannot read properties of undefined (reading 'split')''))
      | Some c \<Rightarrow>
          (let keyPoints = filter (\<lambda>s. length s > 0) (map trim (take 2 (splitOn isSentenceEnd c)));
               dflt = (case map_of (fallbacks keyPoints) (lit ''default'') of
                         Some t \<Rightarrow> t | None \<Rightarrow> [])
           in Inr (case style of
                     None \<Rightarrow> dflt
                   | Some s \<Rightarrow> (case map_of (fallbacks keyPoints) s of Some t \<Rightarrow> t | None \<Rightarrow> dflt))))"

text \<open>
  The \<open>try\<close> block of \<open>handleRhymeGeneration\<close>. Its \<open>generateAudio\<close> is a placeholder that
  returns \<open>null\<close>, also when it throws inside; \<open>countWords\<close> is the function of the rhyme
  generator, repeated in this script.
\<close>

definition tryGeneration :: "proxy_reply \<Rightarrow> jsstring \<Rightarrow> rhyme_request \<Rightarrow> js_error + relay_result" where
  "tryGeneration reply now data =
     (if (case reqContent data of None \<Rightarrow> True | Some c \<Rightarrow> c = [] \<or> length (trim c) < 10)
      then Inl (Error (lit ''Content is too short to transform''))
      else
        (case reply of
           ProxyUnreachable m \<Rightarrow> Inl (TypeError m)
         | ProxyNotOk status err \<Rightarrow>
             Inl (Error (optOrElse err (lit ''Server error: '' @ intToString (int status))))
         | ProxyBodyNotJson m \<Rightarrow> Inl (SyntaxError m)
         | ProxyResult ok resultRhyme err \<Rightarrow>
             if \<not> ok then Inl (Error (optOrElse err (lit ''Failed to generate rhyme'')))
             else Inr \<lparr>rrRhyme = resultRhyme,
                       rrMetadata = \<lparr>rmStyle = reqStyle data, rmLength = reqLength data,
                                    rmTone = reqTone data, rmWordCount = countWords resultRhyme,
                                    rmGeneratedAt = now, rmFallback = False\<rparr>,
                       rrAudioUrl = None\<rparr>))"

text \<open>
  \<open>handleRhymeGeneration\<close>: \<open>Inl\<close> is a rejected promise. Any exception of the \<open>try\<close> block
  is answered in the \<open>catch\<close> block by the fallback rhyme; an exception of the \<open>catch\<close> block
  itself rejects.
\<close>

definition handleRhymeGeneration :: "proxy_reply \<Rightarrow> jsstring \<Rightarrow> rhyme_request \<Rightarrow> js_error + relay_result" where
  "handleRhymeGeneration reply now data =
     (case tryGeneration reply now data of
        Inr result \<Rightarrow> Inr result
      | Inl error \<Rightarrow>
          (case generateFallbackRhyme_bg (reqContent data) (reqStyle data) of
             Inl thrown \<Rightarrow> Inl thrown
           | Inr fallbackRhyme \<Rightarrow>
               Inr \<lparr>rrRhyme = Some fallbackRhyme,
                     rrMetadata = \<lparr>rmStyle = reqStyle data, rmLength = reqLength data,
                                  rmTone = reqTone data, rmWordCount = 20,
                                  rmGeneratedAt = now, rmFallback = True\<rparr>,
                     rrAudioUrl = None\<rparr>))"

text \<open>
  The message listener answers a \<open>generateRhyme\<close> message with the result, or with the bare
  message of the error when \<open>handleRhymeGeneration\<close> rejects.
\<close>

datatype message_response = ResponseData relay_result | ResponseError jsstring

definition onGenerateRhyme :: "proxy_reply \<Rightarrow> jsstring \<Rightarrow> rhyme_request \<Rightarrow> message_response" where
  "onGenerateRhyme reply now data =
     (case handleRhymeGeneration reply now data of
        Inr result \<Rightarrow> ResponseData result
      | Inl error \<Rightarrow> ResponseError (message error))"

text \<open>A request without content: \<open>{style: "pop", length: "short", tone: "fun"}\<close>.\<close>

definition requestWithoutContent :: rhyme_request where
  "requestWithoutContent =
     \<lparr>reqContent = None, reqStyle = Some (lit ''pop''), reqLength = Some (lit ''short''),
      reqTone = Some (lit ''fun''), reqTitle = None, reqCustomInstructions = None\<rparr>"

section \<open>Content extractor (content script)\<close>

text \<open>
  What the extractor reads from the page. For each of the three strategies that pick an
  element (\<open>extractByStructure\<close>, \<open>extractByReadability\<close>, \<open>extractByTextDensity\<close>), the page
  gives the text content of the picked element's clone after the excluded elements are
  removed, \<open>None\<close> when the strategy picks no element, or the exception that the reading
  of the document throws. \<open>paragraphTexts\<close> are the text contents of the paragraphs that
  are not excluded, \<open>bodyText\<close> the text content of the body, \<open>None\<close> for a document
  without a body, and \<open>metadataFailure\<close> an exception thrown by the lookups of
  \<open>getPageMetadata\<close>, if any.
\<close>

record page =
  documentTitle :: jsstring
  locationHref :: jsstring
  structureText :: "js_error + jsstring option"
  readabilityText :: "js_error + jsstring option"
  densityText :: "js_error + jsstring option"
  paragraphTexts :: "jsstring list"
  bodyText :: "jsstring option"
  metadataFailure :: "js_error option"

text \<open>The end of \<open>extractTextFromElement\<close>: \<open>text.replace(/\s+/g, " ").trim()\<close>.\<close>

definition extractTextFromElement :: "jsstring \<Rightarrow> jsstring" where
  "extractTextFromElement text = trim (collapseSpace text)"

definition extractByElement :: "js_error + jsstring option \<Rightarrow> js_error + jsstring option" where
  "extractByElement picked =
     (case picked of
        Inl e \<Rightarrow> Inl e
      | Inr None \<Rightarrow> Inr None
      | Inr (Some text) \<Rightarrow> Inr (Some (extractTextFromElement text)))"

definition extractFallback :: "page \<Rightarrow> js_error + jsstring" where
  "extractFallback p =
     (let paragraphs = filter (\<lambda>text. length text > 20) (map trim (paragraphTexts p))
      in if length paragraphs > 0 then Inr (join (lit ''\<newline>\<newline>'') paragraphs)
         else (case bodyText p of
                 None \<Rightarrow> Inl (TypeError (lit ''Cannot read properties of null (reading 'textContent')''))
               | Some t \<Rightarrow> Inr (substring0 (trim t) 2000)))"

definition unwantedPhrases :: "jsstring list" where
  "unwantedPhrases =
     map lit [''Click here'', ''Read more'', ''Continue reading'', ''Share this'', ''Subscribe'',
              ''Sign up'', ''Log in'', ''Cookie policy'', ''Privacy policy'']"

text \<open>
  \<open>content.replace(new RegExp(phrase, "gi"), "")\<close> for a phrase of letters and spaces: every
  occurrence, found from left to right and without regard to case, is removed.
\<close>

function removePhrase :: "jsstring \<Rightarrow> jsstring \<Rightarrow> jsstring" where
  "removePhrase phrase [] = []"
| "removePhrase phrase (c # cs) =
     (if phrase \<noteq> [] \<and> startsWithCI phrase (c # cs)
      then removePhrase phrase (drop (length phrase) (c # cs))
      else c # removePhrase phrase cs)"
  by pat_completeness auto
termination
  by (relation "measure (\<lambda>(phrase, s). length s)") (auto simp: neq_Nil_conv)

definition cleanContent :: "jsstring \<Rightarrow> jsstring" where
  "cleanContent content =
     (if content = [] then []
      else (let spaced = collapseSpace content;
                stripped = fold removePhrase unwantedPhrases spaced;
                limited = (if length stripped > 3000 then substring0 stripped 3000 @ lit ''...''
                           else stripped)
            in trim limited))"

text \<open>
  One step \<open>a() || rest\<close> of the chain \<open>a() || b() || c() || d()\<close>: an exception of \<open>a()\<close>
  ends the chain, a truthy value of it is the value of the chain, whatever the rest would
  do, and a falsy one (\<open>null\<close> or the empty string) hands over to the rest.
\<close>

definition orNext :: "js_error + jsstring option \<Rightarrow> js_error + jsstring \<Rightarrow> js_error + jsstring" where
  "orNext first rest =
     (case first of
        Inl e \<Rightarrow> Inl e
      | Inr None \<Rightarrow> rest
      | Inr (Some s) \<Rightarrow> if s = [] then rest else Inr s)"

definition firstTruthy :: "page \<Rightarrow> js_error + jsstring" where
  "firstTruthy p =
     orNext (extractByElement (structureText p))
       (orNext (extractByElement (readabilityText p))
          (orNext (extractByElement (densityText p))
             (extractFallback p)))"

text \<open>The \<open>try\<close> block of \<open>extractContent\<close>.\<close>

definition tryExtract :: "page \<Rightarrow> jsstring \<Rightarrow> js_error + extracted_content" where
  "tryExtract p now =
     (case firstTruthy p of
        Inl e \<Rightarrow> Inl e
      | Inr found \<Rightarrow>
          (let content = cleanContent found
           in case metadataFailure p of
                Some e \<Rightarrow> Inl e
              | None \<Rightarrow>
                  Inr \<lparr>ecContent = content,
                        ecTitle = orElse (documentTitle p) (lit ''Untitled Page''),
                        ecUrl = locationHref p,
                        ecWordCount = countWords (Some content),
                        extractedAt = now\<rparr>))"

text \<open>
  \<open>extractContent\<close>: the \<open>catch\<close> block reads the title and the address of the document,
  which do not throw, so the function always returns a record.
\<close>

definition extractContent :: "page \<Rightarrow> jsstring \<Rightarrow> extracted_content" where
  "extractContent p now =
     (case tryExtract p now of
        Inr result \<Rightarrow> result
      | Inl error \<Rightarrow>
          \<lparr>ecContent = lit ''Unable to extract content from this page.'',
           ecTitle = orElse (documentTitle p) (lit ''Unknown Page''),
           ecUrl = locationHref p,
           ecWordCount = 0,
           extractedAt = now\<rparr>)"

text \<open>
  Two pages for concrete runs: a document without body and without paragraphs, and a page
  whose article holds one sentence.
\<close>

definition bodilessPage :: page where
  "bodilessPage =
     \<lparr>documentTitle = [], locationHref = lit ''about:blank'',
      structureText = Inr None, readabilityText = Inr None, densityText = Inr None,
      paragraphTexts = [], bodyText = None, metadataFailure = None\<rparr>"

definition articlePage :: page where
  "articlePage =
     \<lparr>documentTitle = lit ''News'', locationHref = lit ''https://example.org/a'',
      structureText = Inr (Some (lit ''  The quick brown fox.\<newline>  Read more '')),
      readabilityText = Inr None, densityText = Inr None,
      paragraphTexts = [], bodyText = Some [], metadataFailure = None\<rparr>"

section \<open>Properties of the cache key\<close>









section \<open>Properties of the audio cache\<close>














lemma generateWithBrowser_resolves:
  "speechSynthesis w \<Longrightarrow> prepareVoice w s gd = Inr v \<Longrightarrow>
   \<exists>r. fst (generateWithBrowser w t s gd g) = Inr r"
  by (simp add: generateWithBrowser_def Let_def split: sum.splits)

lemma generateWithBrowser_rejects:
  "fst (generateWithBrowser w t s gd g) = Inl e \<Longrightarrow>
   (\<not> speechSynthesis w \<and> e = Error (lit ''Speech synthesis not supported''))
   \<or> (speechSynthesis w \<and> prepareVoice w s gd = Inl e)"
  by (auto simp: generateWithBrowser_def Let_def split: if_splits sum.splits)

lemma generateAudio_cases:
  "(\<exists>r. fst (generateAudio w t s gd g) = Inr r) \<or>
   (\<exists>g1. generateAudio w t s gd g = generateWithBrowser w t s gd g1)"
proof (cases "mapGet (createCacheKey t s gd) (audioCache g)")
  case (Some r)
  then show ?thesis by (simp add: generateAudio_def)
next
  case None
  obtain out g1 where d: "dispatch w t s gd g = (out, g1)" by (cases "dispatch w t s gd g")
  show ?thesis
  proof (cases out)
    case (Inl e)
    with None d have "generateAudio w t s gd g = generateWithBrowser w t s gd g1"
      by (simp add: generateAudio_def)
    then show ?thesis by blast
  next
    case (Inr r)
    with None d show ?thesis by (simp add: generateAudio_def)
  qed
qed




text \<open>
  C3, as stated, fails: with a remote service configured whose call throws, on a platform
  without speech synthesis, \<open>generateAudio\<close> rejects.
\<close>

theorem generateAudio_rejects_counterexample:
  "fst (generateAudio silentWorld (lit ''la la'') (lit ''pop'') None
          (newGenerator\<lparr>currentService := ElevenLabs\<rparr>))
     = Inl (Error (lit ''Speech synthesis not supported''))"
  by (simp add: generateAudio_def mapGet_def newGenerator_def dispatch_def generateWithRemote_def
      generateWithBrowser_def silentWorld_def)

text \<open>
  C3, amended. \<open>generateAudio\<close> resolves whenever the local-synthesis backend works (the
  platform has speech synthesis and preparing the utterance does not throw), and when it
  rejects, the rejection is that of \<open>generateWithBrowser\<close>: the platform has no speech
  synthesis, or preparing the utterance threw. An exception of a remote backend is caught
  and the call is retried once through \<open>generateWithBrowser\<close>, whose outcome, a result or a
  rejection, is the outcome of the call.
\<close>

theorem generateAudio_rejects_only_local:
  "(speechSynthesis w \<and> prepareVoice w style gender = Inr v \<longrightarrow>
      (\<exists>r. fst (generateAudio w tx style gender g) = Inr r))
   \<and> (fst (generateAudio w tx style gender g) = Inl e \<longrightarrow>
        (\<exists>g1. generateAudio w tx style gender g = generateWithBrowser w tx style gender g1)
        \<and> ((\<not> speechSynthesis w \<and> e = Error (lit ''Speech synthesis not supported''))
            \<or> (speechSynthesis w \<and> prepareVoice w style gender = Inl e)))
   \<and> (mapGet (createCacheKey tx style gender) (audioCache g) = None
        \<and> currentService g \<noteq> Browser
        \<and> remote w (length (calls g)) (currentService g) tx style gender = Inl err \<longrightarrow>
        generateAudio w tx style gender g =
          generateWithBrowser w tx style gender
            (g\<lparr>calls := calls g @ [(currentService g, tx, style, gender)]\<rparr>))"
proof -
  have p1: "\<exists>r. fst (generateAudio w tx style gender g) = Inr r"
    if "speechSynthesis w \<and> prepareVoice w style gender = Inr v"
    using that generateAudio_cases [of w tx style gender g]
      generateWithBrowser_resolves [of w style gender v tx]
    by auto
  have p2: "(\<exists>g1. generateAudio w tx style gender g = generateWithBrowser w tx style gender g1)
        \<and> ((\<not> speechSynthesis w \<and> e = Error (lit ''Speech synthesis not supported''))
            \<or> (speechSynthesis w \<and> prepareVoice w style gender = Inl e))"
    if rej: "fst (generateAudio w tx style gender g) = Inl e"
  proof -
    obtain g1 where g1: "generateAudio w tx style gender g = generateWithBrowser w tx style gender g1"
      using rej generateAudio_cases [of w tx style gender g] by auto
    with rej have "fst (generateWithBrowser w tx style gender g1) = Inl e" by simp
    then show ?thesis
      using g1 generateWithBrowser_rejects [of w tx style gender g1 e] by blast
  qed
  have p3: "generateAudio w tx style gender g =
          generateWithBrowser w tx style gender
            (g\<lparr>calls := calls g @ [(currentService g, tx, style, gender)]\<rparr>)"
    if h: "mapGet (createCacheKey tx style gender) (audioCache g) = None
        \<and> currentService g \<noteq> Browser
        \<and> remote w (length (calls g)) (currentService g) tx style gender = Inl err"
    using h by (cases "currentService g")
      (simp_all add: generateAudio_def dispatch_def generateWithRemote_def)
  show ?thesis
    using p1 p2 p3 by blast
qed

theorem generateAudio_rejects_only_local_witness:
  "fst (generateAudio speakingWorld (lit ''la la'') (lit ''pop'') None newGenerator)
     = Inr \<lparr>success = True, service = Browser, playable = Utterance (lit ''la la''),
            voice = lit ''default'', playDirectly = True\<rparr>
   \<and> fst (generateAudio silentWorld (lit ''la la'') (lit ''pop'') None
          (newGenerator\<lparr>currentService := ElevenLabs\<rparr>))
     = Inl (Error (lit ''Speech synthesis not supported''))
   \<and> \<not> speechSynthesis silentWorld
   \<and> generateAudio silentWorld (lit ''la la'') (lit ''pop'') None
          (newGenerator\<lparr>currentService := ElevenLabs\<rparr>)
     = generateWithBrowser silentWorld (lit ''la la'') (lit ''pop'') None
          (newGenerator\<lparr>currentService := ElevenLabs,
             calls := [(ElevenLabs, lit ''la la'', lit ''pop'', None)]\<rparr>)"
  using generateAudio_rejects_only_local
      [of speakingWorld "lit ''pop''" None None "lit ''la la''" newGenerator]
    generateAudio_rejects_only_local
      [of silentWorld "lit ''pop''" None None "lit ''la la''"
          "newGenerator\<lparr>currentService := ElevenLabs\<rparr>"
          "Error (lit ''Speech synthesis not supported'')" "Error (lit ''API key not configured'')"]
  by (simp add: generateAudio_def mapGet_def newGenerator_def dispatch_def generateWithRemote_def
      generateWithBrowser_def silentWorld_def speakingWorld_def)

section \<open>Properties of the history\<close>








section \<open>Properties of the rhyme generator\<close>

lemma sublist_concat_mem: "x \<in> set xs \<Longrightarrow> sublist x (concat xs)"
proof -
  assume "x \<in> set xs"
  then obtain as bs where "xs = as @ x # bs" by (auto simp: in_set_conv_decomp)
  then have "concat xs = concat as @ x @ concat bs" by simp
  then show ?thesis unfolding sublist_def by blast
qed

lemma sublist_of_member: "sublist x y \<Longrightarrow> y \<in> set xs \<Longrightarrow> sublist x (concat xs)"
  using sublist_concat_mem sublist_order.order_trans by blast

lemma createPrompt_tables:
  assumes g: "map_of styleGuides style = Some guide"
    and s: "map_of lengthSpecs len = Some spec"
    and t: "map_of toneAdjectives tone = Some toneDesc"
  shows "\<exists>prompt. createPrompt content style len tone ttl custom = Inr prompt \<and> prompt \<noteq> []
           \<and> sublist toneDesc prompt \<and> sublist (examples guide) prompt
           \<and> sublist (rhythm guide) prompt \<and> sublist (rhymeScheme guide) prompt"
proof -
  have "\<exists>parts. createPrompt content style len tone ttl custom = Inr (concat parts)
      \<and> toneDesc \<in> set parts \<and> examples guide \<in> set parts \<and> rhythm guide \<in> set parts
      \<and> rhymeScheme guide \<in> set parts \<and> lit ''\<newline>- Rhythm: '' \<in> set parts"
    unfolding createPrompt_def Let_def g s t option.case
    by (intro exI conjI, rule refl) simp_all
  then obtain parts where p: "createPrompt content style len tone ttl custom = Inr (concat parts)"
    and m: "toneDesc \<in> set parts" "examples guide \<in> set parts" "rhythm guide \<in> set parts"
      "rhymeScheme guide \<in> set parts" "lit ''\<newline>- Rhythm: '' \<in> set parts"
    by blast
  have "lit ''\<newline>- Rhythm: '' \<noteq> []" by (simp add: lit_def)
  with m(5) have "concat parts \<noteq> []" by auto
  with p m show ?thesis by (auto intro: sublist_concat_mem)
qed

lemma keys_have_values: "k \<in> set (map fst t) \<Longrightarrow> \<exists>v. map_of t k = Some v"
  by (cases "map_of t k") (auto simp: map_of_eq_None_iff)

lemma pop_guide:
  "map_of styleGuides (lit ''pop'') = Some guide \<Longrightarrow>
   rhythm guide = lit ''catchy, upbeat tempo'' \<and>
   rhymeScheme guide = lit ''ABAB or AABA'' @ lit '' with memorable hooks''"
  by (auto simp: styleGuides_def lit_def)

text \<open>
  C6. The keys of the three tables are the values of the three options. For every style,
  length and tone among them, and every content, title and custom instruction,
  \<open>createPrompt\<close> returns a prompt, which is not empty and contains the adjectives of the
  tone and the example artists of the style; for the style \<open>pop\<close> it contains
  \<open>catchy, upbeat tempo\<close> and \<open>ABAB or AABA\<close>.
\<close>

theorem createPrompt_contains:
  assumes "style \<in> set (map fst styleGuides)"
    and "len \<in> set (map fst lengthSpecs)"
    and "tone \<in> set (map fst toneAdjectives)"
  shows "map fst styleGuides = map lit [''rap'', ''pop'', ''nursery'', ''ballad'', ''country'']
    \<and> map fst lengthSpecs = map lit [''short'', ''medium'', ''long'']
    \<and> map fst toneAdjectives = map lit [''fun'', ''educational'', ''humorous'', ''dramatic'', ''chill'']
    \<and> (\<exists>guide toneDesc prompt.
          map_of styleGuides style = Some guide \<and> map_of toneAdjectives tone = Some toneDesc
          \<and> createPrompt content style len tone ttl custom = Inr prompt
          \<and> prompt \<noteq> [] \<and> sublist toneDesc prompt \<and> sublist (examples guide) prompt
          \<and> (style = lit ''pop'' \<longrightarrow>
                sublist (lit ''catchy, upbeat tempo'') prompt \<and> sublist (lit ''ABAB or AABA'') prompt))"
proof -
  have k1: "map fst styleGuides = map lit [''rap'', ''pop'', ''nursery'', ''ballad'', ''country'']"
    by (simp add: styleGuides_def)
  have k2: "map fst lengthSpecs = map lit [''short'', ''medium'', ''long'']"
    by (simp add: lengthSpecs_def)
  have k3: "map fst toneAdjectives = map lit [''fun'', ''educational'', ''humorous'', ''dramatic'', ''chill'']"
    by (simp add: toneAdjectives_def)
  obtain guide spec toneDesc where g: "map_of styleGuides style = Some guide"
    and s: "map_of lengthSpecs len = Some spec" and t: "map_of toneAdjectives tone = Some toneDesc"
    using assms keys_have_values by meson
  obtain prompt where p: "createPrompt content style len tone ttl custom = Inr prompt"
    "prompt \<noteq> []" "sublist toneDesc prompt" "sublist (examples guide) prompt"
    "sublist (rhythm guide) prompt" "sublist (rhymeScheme guide) prompt"
    using createPrompt_tables [OF g s t] by blast
  have pop: "sublist (lit ''catchy, upbeat tempo'') prompt \<and> sublist (lit ''ABAB or AABA'') prompt"
    if "style = lit ''pop''"
  proof -
    from that g have r: "rhythm guide = lit ''catchy, upbeat tempo''"
      and h: "rhymeScheme guide = lit ''ABAB or AABA'' @ lit '' with memorable hooks''"
      using pop_guide by auto
    have "sublist (lit ''ABAB or AABA'') (rhymeScheme guide)" unfolding h by simp
    then have "sublist (lit ''ABAB or AABA'') prompt"
      using p(6) sublist_order.order_trans by blast
    with p(5) r show ?thesis by simp
  qed
  show ?thesis using k1 k2 k3 g t p pop by blast
qed


theorem createPrompt_contains_witness:
  "lit ''pop'' \<in> set (map fst styleGuides) \<and> lit ''medium'' \<in> set (map fst lengthSpecs)
   \<and> lit ''fun'' \<in> set (map fst toneAdjectives)
   \<and> (\<exists>prompt.
         createPrompt (foxContent)
           (lit ''pop'') (lit ''medium'') (lit ''fun'') [] [] = Inr prompt
         \<and> prompt \<noteq> []
         \<and> sublist (lit ''playful, energetic, and entertaining'') prompt
         \<and> sublist (lit ''like Taylor Swift, Ed Sheeran, or Dua Lipa'') prompt
         \<and> sublist (lit ''catchy, upbeat tempo'') prompt
         \<and> sublist (lit ''ABAB or AABA'') prompt)"
proof -
  have s: "lit ''pop'' \<in> set (map fst styleGuides)" by (simp add: styleGuides_def)
  have l: "lit ''medium'' \<in> set (map fst lengthSpecs)" by (simp add: lengthSpecs_def)
  have t: "lit ''fun'' \<in> set (map fst toneAdjectives)" by (simp add: toneAdjectives_def)
  have g: "map_of styleGuides (lit ''pop'') = Some guide \<Longrightarrow>
      examples guide = lit ''like Taylor Swift, Ed Sheeran, or Dua Lipa''" for guide
    by (auto simp: styleGuides_def lit_def)
  have d: "map_of toneAdjectives (lit ''fun'') = Some toneDesc \<Longrightarrow>
      toneDesc = lit ''playful, energetic, and entertaining''" for toneDesc
    by (auto simp: toneAdjectives_def lit_def)
  show ?thesis
    using createPrompt_contains [OF s l t,
        of foxContent "[]" "[]"]
      s l t g d
    by metis
qed

lemma callGeminiAPI_last:
  "callGeminiAPI backend 3 =
     (case tryRequest (backend 3) of
        Inr t \<Rightarrow> (Inr t, [Fetch 3])
      | Inl e \<Rightarrow> (Inl e, [Fetch 3]))"
  by (subst callGeminiAPI.simps) (simp add: maxRetries_def split: sum.splits)

lemma callGeminiAPI_second:
  "callGeminiAPI backend 2 =
     (case tryRequest (backend 2) of
        Inr t \<Rightarrow> (Inr t, [Fetch 2])
      | Inl e \<Rightarrow> (fst (callGeminiAPI backend 3), Fetch 2 # Delay 2000 # snd (callGeminiAPI backend 3)))"
  by (subst callGeminiAPI.simps)
    (simp add: maxRetries_def retryDelay_def case_prod_beta split: sum.splits)

lemma callGeminiAPI_first:
  "callGeminiAPI backend 1 =
     (case tryRequest (backend 1) of
        Inr t \<Rightarrow> (Inr t, [Fetch 1])
      | Inl e \<Rightarrow> (fst (callGeminiAPI backend 2), Fetch 1 # Delay 1000 # snd (callGeminiAPI backend 2)))"
  by (subst callGeminiAPI.simps)
    (simp add: maxRetries_def retryDelay_def case_prod_beta del: One_nat_def split: sum.splits)





lemma tryRequest_Inr: "tryRequest reply = Inr t \<Longrightarrow> reply = ResponseText t"
  by (cases reply) (simp_all add: tryRequest_def)

lemma callGeminiAPI_success:
  "callGeminiAPI backend 1 = (Inr response, evs) \<Longrightarrow>
   \<exists>n. 1 \<le> n \<and> n \<le> 3 \<and> backend n = ResponseText response"
proof -
  assume a: "callGeminiAPI backend 1 = (Inr response, evs)"
  have "tryRequest (backend 1) = Inr response \<or> tryRequest (backend 2) = Inr response
      \<or> tryRequest (backend 3) = Inr response"
    using a
    by (auto simp: callGeminiAPI_first callGeminiAPI_second callGeminiAPI_last
        simp del: One_nat_def split: sum.splits)
  then have "backend 1 = ResponseText response \<or> backend 2 = ResponseText response
      \<or> backend 3 = ResponseText response"
    using tryRequest_Inr by blast
  then show ?thesis
  proof (elim disjE)
    assume "backend 1 = ResponseText response"
    then have "(1::nat) \<le> 1 \<and> (1::nat) \<le> 3 \<and> backend 1 = ResponseText response" by simp
    then show ?thesis by (rule exI)
  next
    assume "backend 2 = ResponseText response"
    then have "(1::nat) \<le> 2 \<and> (2::nat) \<le> 3 \<and> backend 2 = ResponseText response" by simp
    then show ?thesis by (rule exI)
  next
    assume "backend 3 = ResponseText response"
    then have "(1::nat) \<le> 3 \<and> (3::nat) \<le> 3 \<and> backend 3 = ResponseText response" by simp
    then show ?thesis by (rule exI)
  qed
qed

lemma prompt_for_known:
  assumes "style \<in> set (map fst styleGuides)" "len \<in> set (map fst lengthSpecs)"
  shows "\<exists>prompt. createPrompt content style len tone ttl custom = Inr prompt"
proof -
  obtain guide spec where "map_of styleGuides style = Some guide" "map_of lengthSpecs len = Some spec"
    using assms keys_have_values by meson
  then show ?thesis by (simp add: createPrompt_def Let_def)
qed





text \<open>
  C10. Whenever \<open>transformToRhyme\<close> succeeds, the rhyme is the cleaned text of the reply
  of one of the attempts and \<open>metadata.wordCount\<close> is the word count of that reply as it
  came, not of the rhyme returned. For the reply \<open>Here's your song: la la\<close> the rhyme is
  \<open>la la\<close>, of two words, and the count is five.
\<close>

theorem wordCount_counts_raw_response:
  "(transformToRhyme backend storedKey now content options = (Success rhyme metadata, evs) \<longrightarrow>
      (\<exists>response n. 1 \<le> n \<and> n \<le> 3 \<and> backend n = ResponseText response
          \<and> rhyme = cleanResponse response \<and> mdWordCount metadata = countWords response))
   \<and> cleanResponse (Some (lit ''Here's your song: la la'')) = lit ''la la''
   \<and> countWords (Some (lit ''Here's your song: la la'')) = 5
   \<and> countWords (Some (lit ''la la'')) = 2"
proof -
  have a: "\<exists>response n. 1 \<le> n \<and> n \<le> 3 \<and> backend n = ResponseText response
          \<and> rhyme = cleanResponse response \<and> mdWordCount metadata = countWords response"
    if h: "transformToRhyme backend storedKey now content options = (Success rhyme metadata, evs)"
  proof -
    obtain out evs' where c: "callGeminiAPI backend 1 = (out, evs')"
      by (cases "callGeminiAPI backend 1")
    from h c obtain response where r: "out = Inr response" "rhyme = cleanResponse response"
      "mdWordCount metadata = countWords response"
      by (auto simp: transformToRhyme_def Let_def simp del: One_nat_def
          split: option.splits if_splits sum.splits)
    from c r(1) obtain n where "1 \<le> n \<and> n \<le> 3 \<and> backend n = ResponseText response"
      using callGeminiAPI_success by blast
    with r show ?thesis by blast
  qed
  have b: "cleanResponse (Some (lit ''Here's your song: la la'')) = lit ''la la''"
    by (simp add: cleanResponse_def stripHerePreamble_def stripLabel_def startsWithCI_def
        lowerAscii_def isLineTerminator_def isSpace_def trim_def trimStart_def trimEnd_def lit_def)
  have c: "countWords (Some (lit ''Here's your song: la la'')) = 5"
    by (simp add: countWords_def splitOn_def isSpace_def lit_def)
  have d: "countWords (Some (lit ''la la'')) = 2"
    by (simp add: countWords_def splitOn_def isSpace_def lit_def)
  show ?thesis using a b c d by blast
qed

theorem wordCount_counts_raw_response_witness:
  "transformToRhyme preambleBackend (Some (lit ''key'')) [] foxContent defaultOptions
     = (Success (lit ''la la'')
          \<lparr>mdStyle = lit ''pop'', mdLength = lit ''medium'', mdTone = lit ''fun'',
           mdWordCount = 5, generatedAt = []\<rparr>, [Fetch 1])
   \<and> (\<exists>response n. 1 \<le> n \<and> n \<le> 3 \<and> preambleBackend n = ResponseText response
          \<and> lit ''la la'' = cleanResponse response \<and> 5 = countWords response)
   \<and> countWords (Some (lit ''la la'')) \<noteq> 5"
proof -
  note inst = wordCount_counts_raw_response [of preambleBackend "Some (lit ''key'')" "[]" foxContent
      defaultOptions "lit ''la la''"
      "\<lparr>mdStyle = lit ''pop'', mdLength = lit ''medium'', mdTone = lit ''fun'',
           mdWordCount = 5, generatedAt = []\<rparr>" "[Fetch 1]"]
  have k: "lit ''key'' \<noteq> []" by (simp add: lit_def)
  obtain prompt where p: "createPrompt foxContent (lit ''pop'') (lit ''medium'') (lit ''fun'') [] [] = Inr prompt"
    using prompt_for_known [of "lit ''pop''" "lit ''medium''" foxContent "lit ''fun''" "[]" "[]"]
    by (auto simp: styleGuides_def lengthSpecs_def)
  have c: "callGeminiAPI preambleBackend 1 = (Inr (Some (lit ''Here's your song: la la'')), [Fetch 1])"
    by (simp add: callGeminiAPI_first preambleBackend_def tryRequest_def del: One_nat_def)
  have run: "transformToRhyme preambleBackend (Some (lit ''key'')) [] foxContent defaultOptions
     = (Success (lit ''la la'')
          \<lparr>mdStyle = lit ''pop'', mdLength = lit ''medium'', mdTone = lit ''fun'',
           mdWordCount = 5, generatedAt = []\<rparr>, [Fetch 1])"
    using inst k p c
    by (simp add: transformToRhyme_def defaultOptions_def orDefault_def Let_def del: One_nat_def)
  show ?thesis using inst run by simp
qed






section \<open>Properties of the content extractor\<close>

lemma length_trim_le: "length (trim s) \<le> length s"
proof -
  have "length (trimEnd t) \<le> length t" for t
    using length_dropWhile_le [of isSpace "rev t"] by (simp add: trimEnd_def)
  moreover have "length (trimStart s) \<le> length s"
    by (simp add: trimStart_def length_dropWhile_le)
  ultimately show ?thesis
    unfolding trim_def using le_trans by blast
qed

lemma length_cleanContent_le: "length (cleanContent c) \<le> 3003"
proof (cases "c = []")
  case True
  then show ?thesis by (simp add: cleanContent_def)
next
  case False
  let ?stripped = "fold removePhrase unwantedPhrases (collapseSpace c)"
  let ?limited = "if length ?stripped > 3000 then substring0 ?stripped 3000 @ lit ''...'' else ?stripped"
  have "length ?limited \<le> 3003"
    by (simp add: substring0_def lit_def)
  moreover have "cleanContent c = trim ?limited"
    using False by (simp add: cleanContent_def Let_def)
  ultimately show ?thesis
    using length_trim_le [of ?limited] by simp
qed

lemma tryExtract_content:
  "tryExtract p now = Inr r \<Longrightarrow> \<exists>found. firstTruthy p = Inr found \<and> ecContent r = cleanContent found"
  by (auto simp: tryExtract_def Let_def split: sum.splits option.splits)

text \<open>
  C1. For every page, \<open>extractContent\<close> returns a record, and the content of the record has
  at most 3003 code units: 3000 and the three of the ellipsis; the same bound holds for
  \<open>cleanContent\<close> on every string. When the \<open>try\<close> block completes, its record is the
  result; when anything in it throws, the result is the placeholder sentence with the
  title of the document (or \<open>Unknown Page\<close>), its address, a word count of zero and the time
  stamp.
\<close>

theorem extractContent_bounded:
  "length (ecContent (extractContent p now)) \<le> 3003
   \<and> length (cleanContent c) \<le> 3003
   \<and> (tryExtract p now = Inr r \<longrightarrow> extractContent p now = r)
   \<and> (tryExtract p now = Inl e \<longrightarrow>
        extractContent p now =
          \<lparr>ecContent = lit ''Unable to extract content from this page.'',
           ecTitle = orElse (documentTitle p) (lit ''Unknown Page''),
           ecUrl = locationHref p,
           ecWordCount = 0,
           extractedAt = now\<rparr>)"
proof -
  have ok: "extractContent p now = r" if "tryExtract p now = Inr r" for r
    using that by (simp add: extractContent_def)
  have bad: "extractContent p now =
          \<lparr>ecContent = lit ''Unable to extract content from this page.'',
           ecTitle = orElse (documentTitle p) (lit ''Unknown Page''),
           ecUrl = locationHref p, ecWordCount = 0, extractedAt = now\<rparr>"
    if "tryExtract p now = Inl e" for e
    using that by (simp add: extractContent_def)
  have "length (ecContent (extractContent p now)) \<le> 3003"
  proof (cases "tryExtract p now")
    case (Inl e)
    then show ?thesis by (simp add: bad lit_def)
  next
    case (Inr r)
    then obtain found where "ecContent r = cleanContent found"
      using tryExtract_content by blast
    then show ?thesis using Inr length_cleanContent_le [of found] by (simp add: ok)
  qed
  then show ?thesis using ok bad length_cleanContent_le by blast
qed

theorem extractContent_bounded_witness:
  "tryExtract bodilessPage [] =
     Inl (TypeError (lit ''Cannot read properties of null (reading 'textContent')''))
   \<and> extractContent bodilessPage [] =
       \<lparr>ecContent = lit ''Unable to extract content from this page.'',
        ecTitle = lit ''Unknown Page'', ecUrl = lit ''about:blank'',
        ecWordCount = 0, extractedAt = []\<rparr>
   \<and> tryExtract articlePage [] =
       Inr \<lparr>ecContent = lit ''The quick brown fox.'', ecTitle = lit ''News'',
             ecUrl = lit ''https://example.org/a'', ecWordCount = 4, extractedAt = []\<rparr>
   \<and> extractContent articlePage [] =
       \<lparr>ecContent = lit ''The quick brown fox.'', ecTitle = lit ''News'',
        ecUrl = lit ''https://example.org/a'', ecWordCount = 4, extractedAt = []\<rparr>"
proof -
  have b: "tryExtract bodilessPage [] =
     Inl (TypeError (lit ''Cannot read properties of null (reading 'textContent')''))"
    by (simp add: tryExtract_def firstTruthy_def orNext_def extractByElement_def extractFallback_def
        bodilessPage_def)
  have a: "tryExtract articlePage [] =
       Inr \<lparr>ecContent = lit ''The quick brown fox.'', ecTitle = lit ''News'',
             ecUrl = lit ''https://example.org/a'', ecWordCount = 4, extractedAt = []\<rparr>"
    by code_simp
  have t: "orElse (documentTitle bodilessPage) (lit ''Unknown Page'') = lit ''Unknown Page''"
    and u: "locationHref bodilessPage = lit ''about:blank''"
    by (simp_all add: bodilessPage_def orElse_def)
  show ?thesis
    using extractContent_bounded [of bodilessPage "[]" "[]"
        "\<lparr>ecContent = lit ''The quick brown fox.'', ecTitle = lit ''News'',
             ecUrl = lit ''https://example.org/a'', ecWordCount = 4, extractedAt = []\<rparr>"
        "TypeError (lit ''Cannot read properties of null (reading 'textContent')'')"]
      extractContent_bounded [of articlePage "[]" "[]"
        "\<lparr>ecContent = lit ''The quick brown fox.'', ecTitle = lit ''News'',
             ecUrl = lit ''https://example.org/a'', ecWordCount = 4, extractedAt = []\<rparr>"
        "TypeError (lit ''Cannot read properties of null (reading 'textContent')'')"]
      a b t u
    by simp
qed

section \<open>Properties of the relay client\<close>

lemma fallback_bg_string: "\<exists>r. generateFallbackRhyme_bg (Some c) style = Inr r \<and> r \<noteq> []"
  by (auto simp: generateFallbackRhyme_bg_def Let_def fallbacks_def lit_def musicalNote_def
      split: option.splits if_splits)

lemma handleRhymeGeneration_string_content:
  "reqContent data = Some c \<Longrightarrow>
   \<exists>result. handleRhymeGeneration reply now data = Inr result
     \<and> (tryGeneration reply now data = Inr result
         \<or> (\<exists>fallbackRhyme. rrRhyme result = Some fallbackRhyme \<and> fallbackRhyme \<noteq> []
               \<and> generateFallbackRhyme_bg (Some c) (reqStyle data) = Inr fallbackRhyme
               \<and> rmFallback (rrMetadata result)))"
proof -
  assume c: "reqContent data = Some c"
  obtain fb where fb: "generateFallbackRhyme_bg (Some c) (reqStyle data) = Inr fb" "fb \<noteq> []"
    using fallback_bg_string by blast
  show ?thesis
  proof (cases "tryGeneration reply now data")
    case (Inl e)
    then show ?thesis using c fb by (simp add: handleRhymeGeneration_def)
  next
    case (Inr r)
    then show ?thesis by (simp add: handleRhymeGeneration_def)
  qed
qed

text \<open>
  C9. For a request without content, whatever the proxy answers, the validation throws,
  the \<open>catch\<close> block calls the fallback generator on the absent content, that call throws
  in turn, and \<open>handleRhymeGeneration\<close> rejects: the listener answers the caller with the bare
  message of the error and no rhyme.
\<close>

theorem handleRhymeGeneration_rejects_without_content:
  "handleRhymeGeneration reply now requestWithoutContent
     = Inl (TypeError (lit ''Cannot read properties of undefined (reading 'split')''))
   \<and> onGenerateRhyme reply now requestWithoutContent
     = ResponseError (lit ''Cannot read properties of undefined (reading 'split')'')"
  by (simp add: onGenerateRhyme_def handleRhymeGeneration_def tryGeneration_def
      generateFallbackRhyme_bg_def requestWithoutContent_def)

end
